theory Spec2Isabelle
  imports Main
begin

section \<open>The users and adverts service of server.py\<close>

text \<open>
  server.py is one module: two Gino models (\<open>User\<close>, \<open>Advert\<close>) over a relational
  store, the three class methods of \<open>BaseModel\<close>, five aiohttp views and the route table.
  The embedding follows the module top to bottom. The store is state that is passed
  explicitly; every \<open>raise\<close> of the module, and every exception of a library call that
  the module makes, is a value of \<open>exn\<close> returned on the left of a sum.

  Scope of the model. The store is described by what the schema in server.py declares and
  the module relies on: primary keys drawn from a sequence, the two unique columns of
  \<open>user\<close>, the foreign key of \<open>advert\<close>, lookup, insert and delete by primary key, and
  the two bulk selects. Keyword arguments of a create are the documented keys of the two
  JSON bodies, each of which may be absent, with values of the column's type that fit the
  column's declared length. Strings are byte strings, so a digit is an ASCII digit.
  \<open>hashlib.md5(..).hexdigest()\<close> is a parameter \<open>md5_hexdigest\<close> of the functions that
  call it.
\<close>

subsection \<open>Exceptions and JSON values\<close>

datatype exn =
    HTTPNotFound
  | HTTPBadRequest
  | HTTPMethodNotAllowed
  | UniqueViolationError
  | ForeignKeyViolationError
  | JSONDecodeError
  | KeyError string
  | ValueError

text \<open>
  \<open>web.HTTPNotFound\<close>, \<open>web.HTTPBadRequest\<close> and \<open>web.HTTPMethodNotAllowed\<close> are
  aiohttp's \<open>HTTPException\<close>s: raising one of them is the way a handler answers with that
  status. Every other exception is not a response.
\<close>

fun http_status :: "exn \<Rightarrow> nat option" where
  "http_status HTTPNotFound = Some 404"
| "http_status HTTPBadRequest = Some 400"
| "http_status HTTPMethodNotAllowed = Some 405"
| "http_status UniqueViolationError = None"
| "http_status ForeignKeyViolationError = None"
| "http_status JSONDecodeError = None"
| "http_status (KeyError k) = None"
| "http_status ValueError = None"

datatype json =
    JNull
  | JInt int
  | JStr string
  | JArr "json list"
  | JObj "(string \<times> json) list"

record response =
  status :: nat
  payload :: json

definition json_response :: "json \<Rightarrow> response" where
  "json_response data = \<lparr>status = 200, payload = data\<rparr>"

text \<open>A nullable string column read into Python is \<open>None\<close> or a \<open>str\<close>.\<close>

fun json_str :: "string option \<Rightarrow> json" where
  "json_str None = JNull"
| "json_str (Some s) = JStr s"

fun json_int :: "int option \<Rightarrow> json" where
  "json_int None = JNull"
| "json_int (Some i) = JInt i"

subsection \<open>The schema (lines 43-88) and the store\<close>

record user_row =
  u_id :: nat
  u_username :: "string option"
  u_email :: "string option"
  u_password :: "string option"

record advert_row =
  a_id :: nat
  a_title :: "string option"
  a_text :: "string option"
  a_timestamp :: "string option"
  a_user_id :: "int option"

text \<open>
  Rows are kept in insertion order. \<open>user_id_seq\<close> and \<open>advert_id_seq\<close> are the last
  values handed out by the sequences behind the two \<open>id\<close> columns.
\<close>

record db =
  users :: "user_row list"
  user_id_seq :: nat
  adverts :: "advert_row list"
  advert_id_seq :: nat

definition empty_db :: db where
  "empty_db = \<lparr>users = [], user_id_seq = 0, adverts = [], advert_id_seq = 0\<rparr>"

text \<open>The keyword arguments of the two creates; \<open>None\<close> is a key that is not passed.\<close>

record user_kwargs =
  k_username :: "string option"
  k_email :: "string option"
  k_password :: "string option"

record advert_kwargs =
  k_title :: "string option"
  k_text :: "string option"
  k_user_id :: "int option"

subsubsection \<open>\<open>cls.get\<close>, \<open>instance.delete\<close>, \<open>cls.create\<close> for the two models\<close>


definition Advert_get :: "db \<Rightarrow> int \<Rightarrow> advert_row option" where
  "Advert_get s i = find (\<lambda>r. int (a_id r) = i) (adverts s)"

definition Advert_delete :: "db \<Rightarrow> advert_row \<Rightarrow> db" where
  "Advert_delete s instance = s\<lparr>adverts := filter (\<lambda>r. a_id r \<noteq> a_id instance) (adverts s)\<rparr>"

text \<open>
  A unique column rejects a value that a stored row already has; NULL never collides.
\<close>

definition taken :: "'a option \<Rightarrow> 'a option list \<Rightarrow> bool" where
  "taken v col = (case v of None \<Rightarrow> False | Some x \<Rightarrow> Some x \<in> set col)"

text \<open>
  The insert draws the next id first, and the sequence keeps the value also when the
  insert then fails on a constraint.
\<close>

definition User_create :: "db \<Rightarrow> user_kwargs \<Rightarrow> (exn + user_row) \<times> db" where
  "User_create s kwargs =
     (let i = Suc (user_id_seq s);
          s1 = s\<lparr>user_id_seq := i\<rparr>;
          row = \<lparr>u_id = i, u_username = k_username kwargs, u_email = k_email kwargs,
                 u_password = k_password kwargs\<rparr>
      in if i \<in> set (map u_id (users s))
            \<or> taken (k_username kwargs) (map u_username (users s))
            \<or> taken (k_email kwargs) (map u_email (users s))
         then (Inl UniqueViolationError, s1)
         else (Inr row, s1\<lparr>users := users s @ [row]\<rparr>))"

text \<open>
  \<open>default\<close> of the \<open>timestamp\<close> column is whatever the class attribute holds; the
  create takes it as \<open>timestamp_default\<close>.
\<close>

definition Advert_create :: "string \<Rightarrow> db \<Rightarrow> advert_kwargs \<Rightarrow> (exn + advert_row) \<times> db" where
  "Advert_create timestamp_default s kwargs =
     (let i = Suc (advert_id_seq s);
          s1 = s\<lparr>advert_id_seq := i\<rparr>;
          row = \<lparr>a_id = i, a_title = k_title kwargs, a_text = k_text kwargs,
                 a_timestamp = Some timestamp_default, a_user_id = k_user_id kwargs\<rparr>
      in if i \<in> set (map a_id (adverts s))
         then (Inl UniqueViolationError, s1)
         else if (case k_user_id kwargs of None \<Rightarrow> False
                  | Some uid \<Rightarrow> uid \<notin> set (map (\<lambda>r. int (u_id r)) (users s)))
         then (Inl ForeignKeyViolationError, s1)
         else (Inr row, s1\<lparr>adverts := adverts s @ [row]\<rparr>))"

subsection \<open>\<open>BaseModel\<close> (lines 17-40)\<close>

text \<open>
  The three class methods are written once for both models; \<open>cls.get\<close>,
  \<open>instance.delete\<close> and \<open>cls.create\<close> are the arguments \<open>cls_get\<close>,
  \<open>instance_delete\<close> and \<open>cls_create\<close>.
\<close>

definition get_or_404 :: "(db \<Rightarrow> int \<Rightarrow> 'r option) \<Rightarrow> db \<Rightarrow> int \<Rightarrow> exn + 'r" where
  "get_or_404 cls_get s i =
     (case cls_get s i of
        Some instance \<Rightarrow> Inr instance
      | None \<Rightarrow> Inl HTTPNotFound)"

definition delete_or_404 ::
  "(db \<Rightarrow> int \<Rightarrow> 'r option) \<Rightarrow> (db \<Rightarrow> 'r \<Rightarrow> db) \<Rightarrow> db \<Rightarrow> int \<Rightarrow> (exn + int) \<times> db" where
  "delete_or_404 cls_get instance_delete s i =
     (case cls_get s i of
        Some instance \<Rightarrow> (Inr i, instance_delete s instance)
      | None \<Rightarrow> (Inl HTTPNotFound, s))"

definition create_instance ::
  "(db \<Rightarrow> 'k \<Rightarrow> (exn + 'r) \<times> db) \<Rightarrow> db \<Rightarrow> 'k \<Rightarrow> (exn + 'r) \<times> db" where
  "create_instance cls_create s kwargs =
     (case cls_create s kwargs of
        (Inl e, s') \<Rightarrow> (if e = UniqueViolationError then (Inl HTTPBadRequest, s') else (Inl e, s'))
      | (Inr instance, s') \<Rightarrow> (Inr instance, s'))"

subsection \<open>\<open>User\<close> and \<open>Advert\<close> (lines 43-88)\<close>

definition User_to_dict :: "user_row \<Rightarrow> json" where
  "User_to_dict self =
     JObj [(''id'', JInt (int (u_id self))),
           (''username'', json_str (u_username self)),
           (''email'', json_str (u_email self))]"

definition User_create_instance ::
  "(string \<Rightarrow> string) \<Rightarrow> db \<Rightarrow> user_kwargs \<Rightarrow> (exn + user_row) \<times> db" where
  "User_create_instance md5_hexdigest s kwargs =
     (case k_password kwargs of
        None \<Rightarrow> (Inl (KeyError ''password''), s)
      | Some p \<Rightarrow>
          create_instance User_create s (kwargs\<lparr>k_password := Some (md5_hexdigest p)\<rparr>))"

definition Advert_to_dict :: "advert_row \<Rightarrow> json" where
  "Advert_to_dict self =
     JObj [(''id'', JInt (int (a_id self))),
           (''title'', json_str (a_title self)),
           (''text'', json_str (a_text self)),
           (''owner'', json_int (a_user_id self)),
           (''timestamp'', json_str (a_timestamp self))]"

subsection \<open>The column default of line 75\<close>

record datetime =
  year :: nat
  month :: nat
  day :: nat
  hour :: nat
  minute :: nat
  second :: nat
  microsecond :: nat

definition digit_chr :: "nat \<Rightarrow> char" where
  "digit_chr d = char_of (48 + d)"

function str_nat :: "nat \<Rightarrow> string" where
  "str_nat n = (if n < 10 then [digit_chr n] else str_nat (n div 10) @ [digit_chr (n mod 10)])"
  by pat_completeness auto
termination
  by (relation "measure (\<lambda>n. n)") auto

declare str_nat.simps [simp del]

definition zfill :: "nat \<Rightarrow> string \<Rightarrow> string" where
  "zfill width s = replicate (width - length s) (CHR ''0'') @ s"

text \<open>
  \<open>datetime.isoformat\<close> of a naive datetime: \<open>YYYY-MM-DDTHH:MM:SS\<close>, followed by
  \<open>.ffffff\<close> when the microsecond is not zero.
\<close>

definition isoformat :: "datetime \<Rightarrow> string" where
  "isoformat d =
     zfill 4 (str_nat (year d)) @ ''-'' @ zfill 2 (str_nat (month d)) @ ''-'' @
     zfill 2 (str_nat (day d)) @ ''T'' @ zfill 2 (str_nat (hour d)) @ '':'' @
     zfill 2 (str_nat (minute d)) @ '':'' @ zfill 2 (str_nat (second d)) @
     (if microsecond d = 0 then [] else ''.'' @ zfill 6 (str_nat (microsecond d)))"

text \<open>
  \<open>default=datetime.isoformat(datetime.utcnow())\<close> is an argument of \<open>db.Column\<close> in the
  class body of \<open>Advert\<close>: it is evaluated once, when the module is imported, and the
  column keeps the resulting string. \<open>imported_at\<close> is what \<open>datetime.utcnow()\<close> returns
  at that moment.
\<close>

definition Advert_timestamp_default :: "datetime \<Rightarrow> string" where
  "Advert_timestamp_default imported_at = isoformat imported_at"

subsection \<open>The views (lines 114-170)\<close>

text \<open>
  \<open>int(..)\<close> of a string: surrounding whitespace is dropped, a sign may lead, and the
  digits may be grouped by single underscores.
\<close>

definition is_digit :: "char \<Rightarrow> bool" where
  "is_digit c = (48 \<le> (of_char c :: nat) \<and> (of_char c :: nat) \<le> 57)"

definition digit_val :: "char \<Rightarrow> nat" where
  "digit_val c = of_char c - 48"

definition is_space :: "char \<Rightarrow> bool" where
  "is_space c = ((of_char c :: nat) = 32 \<or> (9 \<le> (of_char c :: nat) \<and> (of_char c :: nat) \<le> 13))"

definition strip :: "string \<Rightarrow> string" where
  "strip s = rev (dropWhile is_space (rev (dropWhile is_space s)))"

fun int_literal :: "string \<Rightarrow> bool" where
  "int_literal [] = False"
| "int_literal [c] = is_digit c"
| "int_literal (c # d # r) =
     (is_digit c \<and> (if d = CHR ''_'' then int_literal r else int_literal (d # r)))"

definition decimal :: "string \<Rightarrow> nat" where
  "decimal s = foldl (\<lambda>acc c. 10 * acc + digit_val c) 0 (filter (\<lambda>c. c \<noteq> CHR ''_'') s)"

definition py_int :: "string \<Rightarrow> exn + int" where
  "py_int s =
     (case strip s of
        [] \<Rightarrow> Inl ValueError
      | c # r \<Rightarrow>
          if c = CHR ''-'' then (if int_literal r then Inr (- int (decimal r)) else Inl ValueError)
          else if c = CHR ''+'' then (if int_literal r then Inr (int (decimal r)) else Inl ValueError)
          else if int_literal (c # r) then Inr (int (decimal (c # r)))
          else Inl ValueError)"

text \<open>\<open>request.match_info\<close> is a dict; \<open>request.json()\<close> parses the body or raises.\<close>

type_synonym match_info = "string \<rightharpoonup> string"

datatype 'a body = NotJson | Json 'a

fun request_json :: "'a body \<Rightarrow> exn + 'a" where
  "request_json NotJson = Inl JSONDecodeError"
| "request_json (Json data) = Inr data"

definition getitem :: "match_info \<Rightarrow> string \<Rightarrow> exn + string" where
  "getitem d k = (case d k of None \<Rightarrow> Inl (KeyError k) | Some v \<Rightarrow> Inr v)"

definition HealthView_get :: response where
  "HealthView_get = json_response (JObj [(''status'', JStr ''OK!'')])"


definition UserView_post ::
  "(string \<Rightarrow> string) \<Rightarrow> db \<Rightarrow> user_kwargs body \<Rightarrow> (exn + response) \<times> db" where
  "UserView_post md5_hexdigest s body =
     (case request_json body of
        Inl e \<Rightarrow> (Inl e, s)
      | Inr data \<Rightarrow>
          (case User_create_instance md5_hexdigest s data of
             (Inl e, s') \<Rightarrow> (Inl e, s')
           | (Inr user, s') \<Rightarrow> (Inr (json_response (User_to_dict user)), s')))"

definition AdvertView_get :: "db \<Rightarrow> match_info \<Rightarrow> exn + response" where
  "AdvertView_get s match_info =
     (case getitem match_info ''advert_id'' of
        Inl e \<Rightarrow> Inl e
      | Inr seg \<Rightarrow>
          (case py_int seg of
             Inl e \<Rightarrow> Inl e
           | Inr advert_id \<Rightarrow>
               (case get_or_404 Advert_get s advert_id of
                  Inl e \<Rightarrow> Inl e
                | Inr advert \<Rightarrow> Inr (json_response (Advert_to_dict advert)))))"

definition AdvertView_delete :: "db \<Rightarrow> match_info \<Rightarrow> (exn + response) \<times> db" where
  "AdvertView_delete s match_info =
     (case getitem match_info ''advert_id'' of
        Inl e \<Rightarrow> (Inl e, s)
      | Inr seg \<Rightarrow>
          (case py_int seg of
             Inl e \<Rightarrow> (Inl e, s)
           | Inr advert_id \<Rightarrow>
               (case delete_or_404 Advert_get Advert_delete s advert_id of
                  (Inl e, s') \<Rightarrow> (Inl e, s')
                | (Inr advert, s') \<Rightarrow>
                    (Inr (json_response (JObj [(''Deleted ID'', JInt advert)])), s'))))"

definition AdvertView_post ::
  "string \<Rightarrow> db \<Rightarrow> advert_kwargs body \<Rightarrow> (exn + response) \<times> db" where
  "AdvertView_post timestamp_default s body =
     (case request_json body of
        Inl e \<Rightarrow> (Inl e, s)
      | Inr data \<Rightarrow>
          (case create_instance (Advert_create timestamp_default) s data of
             (Inl e, s') \<Rightarrow> (Inl e, s')
           | (Inr advert, s') \<Rightarrow> (Inr (json_response (Advert_to_dict advert)), s')))"

text \<open>
  The two listings read the tables through the raw pool: \<open>fetchall\<close> gives one tuple per
  row, in the order of the \<open>SELECT\<close> list, and a tuple is serialised as a JSON array.
\<close>

definition user_tuple :: "user_row \<Rightarrow> json" where
  "user_tuple r = JArr [JInt (int (u_id r)), json_str (u_username r), json_str (u_email r)]"

definition advert_tuple :: "advert_row \<Rightarrow> json" where
  "advert_tuple r =
     JArr [JInt (int (a_id r)), json_str (a_title r), json_str (a_text r),
           json_int (a_user_id r), json_str (a_timestamp r)]"

definition Users_get :: "db \<Rightarrow> response" where
  "Users_get s = json_response (JArr (map user_tuple (users s)))"

definition Adverts_get :: "db \<Rightarrow> response" where
  "Adverts_get s = json_response (JArr (map advert_tuple (adverts s)))"

subsection \<open>The route table (lines 177-184)\<close>

datatype meth = GET | HEAD | POST | PUT | PATCH | DELETE | OPTIONS

datatype view = HealthView | UserView | Users | AdvertView | Adverts

text \<open>
  A resource is a fixed path, or a prefix followed by one variable whose pattern is
  \<open>\d+\<close>; the whole path has to match.
\<close>

datatype resource = PlainResource string | DigitsResource string string

fun match_resource :: "resource \<Rightarrow> string \<Rightarrow> match_info option" where
  "match_resource (PlainResource p) path = (if path = p then Some Map.empty else None)"
| "match_resource (DigitsResource prefix var) path =
     (let seg = drop (length prefix) path
      in if take (length prefix) path = prefix \<and> seg \<noteq> [] \<and> list_all is_digit seg
         then Some [var \<mapsto> seg] else None)"

text \<open>\<open>web.get\<close> registers the view for HEAD as well as for GET.\<close>

definition web_get :: "resource \<Rightarrow> view \<Rightarrow> (meth \<times> resource \<times> view) list" where
  "web_get r v = [(HEAD, r, v), (GET, r, v)]"

definition web_post :: "resource \<Rightarrow> view \<Rightarrow> (meth \<times> resource \<times> view) list" where
  "web_post r v = [(POST, r, v)]"

definition web_delete :: "resource \<Rightarrow> view \<Rightarrow> (meth \<times> resource \<times> view) list" where
  "web_delete r v = [(DELETE, r, v)]"

definition routes :: "(meth \<times> resource \<times> view) list" where
  "routes =
     web_get (PlainResource ''/'') HealthView @
     web_get (DigitsResource ''/user/'' ''user_id'') UserView @
     web_post (PlainResource ''/user'') UserView @
     web_get (PlainResource ''/users'') Users @
     web_get (DigitsResource ''/advert/'' ''advert_id'') AdvertView @
     web_post (PlainResource ''/advert'') AdvertView @
     web_get (PlainResource ''/adverts'') Adverts @
     web_delete (DigitsResource ''/advert/'' ''advert_id'') AdvertView"

text \<open>
  The router takes the first route whose resource matches the path and whose method is
  the request's; a path that only matches under other methods is answered with 405, and
  a path that matches nothing with 404.
\<close>

fun resolve_in ::
  "(meth \<times> resource \<times> view) list \<Rightarrow> meth \<Rightarrow> string \<Rightarrow> bool \<Rightarrow> exn + (view \<times> match_info)" where
  "resolve_in [] m path seen = Inl (if seen then HTTPMethodNotAllowed else HTTPNotFound)"
| "resolve_in ((m', r, v) # rs) m path seen =
     (case match_resource r path of
        None \<Rightarrow> resolve_in rs m path seen
      | Some mi \<Rightarrow> if m' = m then Inr (v, mi) else resolve_in rs m path True)"

definition resolve :: "meth \<Rightarrow> string \<Rightarrow> exn + (view \<times> match_info)" where
  "resolve m path = resolve_in routes m path False"

text \<open>
  A \<open>web.View\<close> runs the method of the class that is named after the request's method,
  and answers 405 when the class has none.
\<close>

datatype handler =
    H_HealthView_get | H_UserView_get | H_UserView_post | H_Users_get
  | H_AdvertView_get | H_AdvertView_delete | H_AdvertView_post | H_Adverts_get

fun view_method :: "view \<Rightarrow> meth \<Rightarrow> exn + handler" where
  "view_method HealthView GET = Inr H_HealthView_get"
| "view_method UserView GET = Inr H_UserView_get"
| "view_method UserView POST = Inr H_UserView_post"
| "view_method Users GET = Inr H_Users_get"
| "view_method AdvertView GET = Inr H_AdvertView_get"
| "view_method AdvertView DELETE = Inr H_AdvertView_delete"
| "view_method AdvertView POST = Inr H_AdvertView_post"
| "view_method Adverts GET = Inr H_Adverts_get"
| "view_method _ _ = Inl HTTPMethodNotAllowed"

text \<open>The handler that a request reaches, with the \<open>match_info\<close> it is given.\<close>

definition route :: "meth \<Rightarrow> string \<Rightarrow> exn + (handler \<times> match_info)" where
  "route m path =
     (case resolve m path of
        Inl e \<Rightarrow> Inl e
      | Inr (v, mi) \<Rightarrow>
          (case view_method v m of
             Inl e \<Rightarrow> Inl e
           | Inr h \<Rightarrow> Inr (h, mi)))"

subsection \<open>Clients and sample data\<close>

text \<open>
  A client that sends the bodies \<open>bs\<close> to POST /advert one after the other and keeps the
  responses of the requests that succeeded.
\<close>

fun create_adverts :: "string \<Rightarrow> db \<Rightarrow> advert_kwargs body list \<Rightarrow> response list \<times> db" where
  "create_adverts d s [] = ([], s)"
| "create_adverts d s (b # bs) =
     (case AdvertView_post d s b of
        (Inl e, s') \<Rightarrow> create_adverts d s' bs
      | (Inr resp, s') \<Rightarrow>
          (case create_adverts d s' bs of (created, s'') \<Rightarrow> (resp # created, s'')))"

text \<open>The values of a JSON object, in the order of its keys.\<close>

fun dict_values :: "json \<Rightarrow> json" where
  "dict_values (JObj kvs) = JArr (map snd kvs)"
| "dict_values j = j"

text \<open>
  Sample data for the concrete instances below. \<open>demo_digest\<close> stands in for the digest
  there; no general statement depends on it.
\<close>

definition demo_digest :: "string \<Rightarrow> string" where
  "demo_digest p = ''md5:'' @ p"

definition alice :: user_kwargs where
  "alice = \<lparr>k_username = Some ''alice'', k_email = Some ''a@x.com'', k_password = Some ''p1''\<rparr>"

definition db_alice :: db where
  "db_alice = snd (UserView_post demo_digest empty_db (Json alice))"

definition bike :: advert_kwargs where
  "bike = \<lparr>k_title = Some ''Bike'', k_text = Some ''For sale'', k_user_id = Some 1\<rparr>"

definition new_year :: datetime where
  "new_year = \<lparr>year = 2024, month = 1, day = 1, hour = 0, minute = 0, second = 0, microsecond = 0\<rparr>"

definition midsummer :: datetime where
  "midsummer = \<lparr>year = 2024, month = 6, day = 21, hour = 12, minute = 30, second = 5, microsecond = 250\<rparr>"

definition db_bike :: db where
  "db_bike = snd (AdvertView_post (Advert_timestamp_default new_year) db_alice (Json bike))"

text \<open>
  The stores that the service can be in, with the ids it has given to created records.
  \<open>history md5_hexdigest d s U A\<close>: starting from the empty store, some sequence of
  requests has led to \<open>s\<close>; \<open>U\<close> and \<open>A\<close> are the ids in the responses of the creates
  of users and of adverts that succeeded. Only the two POST handlers and the DELETE
  handler change the store.
\<close>

fun payload_id :: "json \<Rightarrow> int option" where
  "payload_id (JObj kvs) = (case map_of kvs ''id'' of Some (JInt i) \<Rightarrow> Some i | _ \<Rightarrow> None)"
| "payload_id j = None"

inductive history :: "(string \<Rightarrow> string) \<Rightarrow> string \<Rightarrow> db \<Rightarrow> int set \<Rightarrow> int set \<Rightarrow> bool"
  for md5_hexdigest :: "string \<Rightarrow> string" and d :: string where
  start: "history md5_hexdigest d empty_db {} {}"
| user_created:
    "history md5_hexdigest d s U A \<Longrightarrow> UserView_post md5_hexdigest s b = (Inr resp, s') \<Longrightarrow>
     payload_id (payload resp) = Some i \<Longrightarrow> history md5_hexdigest d s' (insert i U) A"
| user_refused:
    "history md5_hexdigest d s U A \<Longrightarrow> UserView_post md5_hexdigest s b = (Inl e, s') \<Longrightarrow>
     history md5_hexdigest d s' U A"
| advert_created:
    "history md5_hexdigest d s U A \<Longrightarrow> AdvertView_post d s c = (Inr resp, s') \<Longrightarrow>
     payload_id (payload resp) = Some i \<Longrightarrow> history md5_hexdigest d s' U (insert i A)"
| advert_refused:
    "history md5_hexdigest d s U A \<Longrightarrow> AdvertView_post d s c = (Inl e, s') \<Longrightarrow>
     history md5_hexdigest d s' U A"
| advert_delete:
    "history md5_hexdigest d s U A \<Longrightarrow> AdvertView_delete s mi = (r, s') \<Longrightarrow>
     history md5_hexdigest d s' U A"

text \<open>
  The default of the \<open>timestamp\<close> column as the specification words it: the creation
  moment, taken when the row is inserted. It is compared below with the default that
  line 75 computes.
\<close>

definition spec_timestamp_default :: "datetime \<Rightarrow> string" where
  "spec_timestamp_default created_at = isoformat created_at"

section \<open>Properties\<close>

subsection \<open>Digit strings and \<open>int\<close>\<close>





lemma digit_not_underscore: "is_digit c \<Longrightarrow> c \<noteq> CHR ''_''"
  by (auto simp: is_digit_def)

lemma digit_not_space: "is_digit c \<Longrightarrow> \<not> is_space c"
  by (auto simp: is_digit_def is_space_def)

lemma digit_not_sign: "is_digit c \<Longrightarrow> c \<noteq> CHR ''-'' \<and> c \<noteq> CHR ''+''"
  by (auto simp: is_digit_def)




lemma int_literal_digits: "s \<noteq> [] \<Longrightarrow> list_all is_digit s \<Longrightarrow> int_literal s"
  by (induction s rule: int_literal.induct) (auto simp: digit_not_underscore)

lemma strip_digits: "s \<noteq> [] \<Longrightarrow> list_all is_digit s \<Longrightarrow> strip s = s"
proof -
  assume ne: "s \<noteq> []" and ds: "list_all is_digit s"
  from ne ds have "\<not> is_space (hd s)" by (cases s) (auto simp: digit_not_space)
  with ne have a: "dropWhile is_space s = s" by (cases s) auto
  from ne ds have "\<not> is_space (last s)" by (auto simp: list_all_iff digit_not_space)
  with ne have "dropWhile is_space (rev s) = rev s" by (cases s rule: rev_cases) auto
  with a show ?thesis by (simp add: strip_def)
qed

lemma py_int_digits:
  assumes "s \<noteq> []" and "list_all is_digit s"
  shows "py_int s = Inr (int (decimal s))"
proof -
  obtain c r where s: "s = c # r" using assms(1) by (cases s) auto
  with assms(2) have "is_digit c" by simp
  then have "c \<noteq> CHR ''-''" "c \<noteq> CHR ''+''" using digit_not_sign by auto
  moreover have "int_literal (c # r)" using assms s int_literal_digits by blast
  moreover have "strip s = c # r" using assms s strip_digits by metis
  ultimately show ?thesis by (simp add: py_int_def s)
qed

subsection \<open>Routing\<close>


lemma route_advert_get:
  assumes "seg \<noteq> []" and "list_all is_digit seg"
  shows "route GET (''/advert/'' @ seg) = Inr (H_AdvertView_get, [''advert_id'' \<mapsto> seg])"
  using assms
  by (simp add: route_def resolve_def routes_def web_get_def web_post_def web_delete_def)

lemma route_advert_delete:
  assumes "seg \<noteq> []" and "list_all is_digit seg"
  shows "route DELETE (''/advert/'' @ seg) = Inr (H_AdvertView_delete, [''advert_id'' \<mapsto> seg])"
  using assms
  by (simp add: route_def resolve_def routes_def web_get_def web_post_def web_delete_def)











subsection \<open>Sample states\<close>

lemma db_alice_eq:
  "db_alice = \<lparr>users = [\<lparr>u_id = 1, u_username = Some ''alice'', u_email = Some ''a@x.com'',
                           u_password = Some ''md5:p1''\<rparr>],
               user_id_seq = 1, adverts = [], advert_id_seq = 0\<rparr>"
  by code_simp

subsection \<open>C9: a routed id is a digit string that \<open>int\<close> converts\<close>



subsection \<open>POST /user\<close>

lemma UserView_post_password:
  assumes "k_password kw = Some p"
  shows "UserView_post md5 s (Json kw) =
     (if Suc (user_id_seq s) \<in> set (map u_id (users s))
         \<or> taken (k_username kw) (map u_username (users s))
         \<or> taken (k_email kw) (map u_email (users s))
      then (Inl HTTPBadRequest, s\<lparr>user_id_seq := Suc (user_id_seq s)\<rparr>)
      else (Inr (json_response (User_to_dict
                   \<lparr>u_id = Suc (user_id_seq s), u_username = k_username kw,
                      u_email = k_email kw, u_password = Some (md5 p)\<rparr>)),
            s\<lparr>user_id_seq := Suc (user_id_seq s),
              users := users s @ [\<lparr>u_id = Suc (user_id_seq s), u_username = k_username kw,
                                     u_email = k_email kw, u_password = Some (md5 p)\<rparr>]\<rparr>))"
  using assms
  by (simp add: UserView_post_def User_create_instance_def create_instance_def
      User_create_def Let_def)

lemma UserView_post_no_password:
  assumes "k_password kw = None"
  shows "UserView_post md5 s (Json kw) = (Inl (KeyError ''password''), s)"
  using assms by (simp add: UserView_post_def User_create_instance_def)


lemma db_alice_users:
  "users db_alice = [\<lparr>u_id = 1, u_username = Some ''alice'', u_email = Some ''a@x.com'',
                       u_password = Some ''md5:p1''\<rparr>]"
  by (simp add: db_alice_eq)

subsection \<open>C10: POST /user without a password\<close>

text \<open>
  Claim C10. When the JSON body of POST /user has no \<open>password\<close> key, the handler ends
  with \<open>KeyError('password')\<close>, which is not an HTTP response; the store has not been
  touched, so the user rows (and the id sequence) are what they were.
\<close>

theorem post_user_without_password:
  assumes "k_password kw = None"
  shows "UserView_post md5 s (Json kw) = (Inl (KeyError ''password''), s)
       \<and> http_status (KeyError ''password'') = None"
  using assms by (simp add: UserView_post_no_password)

theorem post_user_without_password_witness:
  "UserView_post demo_digest db_alice (Json (alice\<lparr>k_password := None\<rparr>))
     = (Inl (KeyError ''password''), db_alice)
   \<and> http_status (KeyError ''password'') = None"
  using post_user_without_password [of "alice\<lparr>k_password := None\<rparr>" demo_digest db_alice]
  by simp

subsection \<open>C2: a username or email that is in use\<close>




subsection \<open>C3: the stored password is the digest\<close>

text \<open>
  Claim C3. For a POST /user whose body has the password \<open>p\<close>: if the request fails, no
  row is stored; if it succeeds, exactly one row is added, the response describes that
  row, and the row's password is \<open>md5_hexdigest p\<close>, the value computed on line 64,
  whatever else the body holds. The plaintext reaches the store only through the digest.
\<close>

theorem stored_password_is_digest:
  assumes "k_password kw = Some p"
    and "UserView_post md5_hexdigest s (Json kw) = (r, s')"
  shows "(\<forall>e. r = Inl e \<longrightarrow> users s' = users s)
       \<and> (\<forall>resp. r = Inr resp \<longrightarrow>
            (\<exists>row. users s' = users s @ [row] \<and> resp = json_response (User_to_dict row)
               \<and> u_username row = k_username kw \<and> u_email row = k_email kw
               \<and> u_password row = Some (md5_hexdigest p)))"
  using assms by (auto simp: UserView_post_password split: if_splits)

theorem stored_password_is_digest_witness:
  "UserView_post demo_digest empty_db (Json alice)
     = (Inr (json_response (User_to_dict (last (users db_alice)))), db_alice)
   \<and> users db_alice = users empty_db @ [last (users db_alice)]
   \<and> u_password (last (users db_alice)) = Some (demo_digest ''p1'')
   \<and> UserView_post demo_digest db_alice (Json alice)
     = (Inl HTTPBadRequest, db_alice\<lparr>user_id_seq := 2\<rparr>)
   \<and> users (db_alice\<lparr>user_id_seq := 2\<rparr>) = users db_alice"
proof -
  have p: "k_password alice = Some ''p1''" by (simp add: alice_def)
  have ok: "UserView_post demo_digest empty_db (Json alice)
      = (Inr (json_response (User_to_dict (last (users db_alice)))), db_alice)"
    by code_simp
  have bad: "UserView_post demo_digest db_alice (Json alice)
      = (Inl HTTPBadRequest, db_alice\<lparr>user_id_seq := 2\<rparr>)"
    by code_simp
  have "users db_alice = users empty_db @ [last (users db_alice)]
      \<and> u_password (last (users db_alice)) = Some (demo_digest ''p1'')"
    using stored_password_is_digest [OF p ok] by auto
  moreover have "users (db_alice\<lparr>user_id_seq := 2\<rparr>) = users db_alice"
    using stored_password_is_digest [OF p bad] by blast
  ultimately show ?thesis using ok bad by blast
qed

subsection \<open>Lookup by id\<close>



lemma find_Some_id:
  "n \<in> f ` set rows \<Longrightarrow> \<exists>row. find (\<lambda>r. f r = n) rows = Some row \<and> f row = n"
  by (induction rows) auto


lemma AdvertView_get_digits:
  assumes "seg \<noteq> []" and "list_all is_digit seg"
  shows "AdvertView_get s [''advert_id'' \<mapsto> seg] =
     (case find (\<lambda>r. a_id r = decimal seg) (adverts s) of
        None \<Rightarrow> Inl HTTPNotFound
      | Some advert \<Rightarrow> Inr (json_response (Advert_to_dict advert)))"
  using assms
  by (simp add: AdvertView_get_def getitem_def py_int_digits get_or_404_def Advert_get_def
      split: option.splits)

lemma AdvertView_delete_digits:
  assumes "seg \<noteq> []" and "list_all is_digit seg"
  shows "AdvertView_delete s [''advert_id'' \<mapsto> seg] =
     (case find (\<lambda>r. a_id r = decimal seg) (adverts s) of
        None \<Rightarrow> (Inl HTTPNotFound, s)
      | Some advert \<Rightarrow>
          (Inr (json_response (JObj [(''Deleted ID'', JInt (int (decimal seg)))])),
           s\<lparr>adverts := filter (\<lambda>r. a_id r \<noteq> a_id advert) (adverts s)\<rparr>))"
  using assms
  by (simp add: AdvertView_delete_def getitem_def py_int_digits delete_or_404_def Advert_get_def
      Advert_delete_def split: option.splits)


lemma digits_1: "''1'' \<noteq> [] \<and> list_all is_digit ''1''"
  by (simp add: is_digit_def)


subsection \<open>C7: create a user, then fetch it\<close>



subsection \<open>C4: delete an advert, then fetch it\<close>

lemma find_filtered_out: "find (\<lambda>r. f r = n) (filter (\<lambda>r. f r \<noteq> n) rows) = None"
  by (induction rows) auto

text \<open>
  Claim C4. For an id that some stored advert has, written as any digit string that
  denotes it, DELETE /advert/{id} reaches \<open>AdvertView.delete\<close>, answers 200 with the body
  \<open>{"Deleted ID": id}\<close> and leaves the table without the rows of that id; GET
  /advert/{id} on the resulting store is answered with \<open>HTTPNotFound\<close>, status 404.
\<close>

theorem delete_then_fetch_advert:
  assumes "seg \<noteq> []" and "list_all is_digit seg"
    and "decimal seg \<in> set (map a_id (adverts s))"
  shows "route DELETE (''/advert/'' @ seg) = Inr (H_AdvertView_delete, [''advert_id'' \<mapsto> seg])
       \<and> AdvertView_delete s [''advert_id'' \<mapsto> seg]
           = (Inr \<lparr>status = 200, payload = JObj [(''Deleted ID'', JInt (int (decimal seg)))]\<rparr>,
              s\<lparr>adverts := filter (\<lambda>r. a_id r \<noteq> decimal seg) (adverts s)\<rparr>)
       \<and> route GET (''/advert/'' @ seg) = Inr (H_AdvertView_get, [''advert_id'' \<mapsto> seg])
       \<and> AdvertView_get (snd (AdvertView_delete s [''advert_id'' \<mapsto> seg])) [''advert_id'' \<mapsto> seg]
           = Inl HTTPNotFound
       \<and> http_status HTTPNotFound = Some 404"
proof -
  have ds: "seg \<noteq> []" "list_all is_digit seg" by fact+
  from assms(3) have "decimal seg \<in> a_id ` set (adverts s)" by simp
  then obtain row where row: "find (\<lambda>r. a_id r = decimal seg) (adverts s) = Some row"
    and id: "a_id row = decimal seg"
    using find_Some_id [of "decimal seg" a_id "adverts s"] by blast
  have del: "AdvertView_delete s [''advert_id'' \<mapsto> seg]
      = (Inr \<lparr>status = 200, payload = JObj [(''Deleted ID'', JInt (int (decimal seg)))]\<rparr>,
         s\<lparr>adverts := filter (\<lambda>r. a_id r \<noteq> decimal seg) (adverts s)\<rparr>)"
    by (simp add: AdvertView_delete_digits [OF ds] row id json_response_def)
  have "AdvertView_get (s\<lparr>adverts := filter (\<lambda>r. a_id r \<noteq> decimal seg) (adverts s)\<rparr>)
      [''advert_id'' \<mapsto> seg] = Inl HTTPNotFound"
    by (simp add: AdvertView_get_digits [OF ds] find_filtered_out)
  with del have "AdvertView_get (snd (AdvertView_delete s [''advert_id'' \<mapsto> seg]))
      [''advert_id'' \<mapsto> seg] = Inl HTTPNotFound"
    by simp
  moreover have "http_status HTTPNotFound = Some 404" by simp
  ultimately show ?thesis
    using del route_advert_delete [OF ds] route_advert_get [OF ds] by blast
qed

lemma db_bike_eq:
  "db_bike = db_alice\<lparr>adverts := [\<lparr>a_id = 1, a_title = Some ''Bike'', a_text = Some ''For sale'',
                                     a_timestamp = Some ''2024-01-01T00:00:00'',
                                     a_user_id = Some 1\<rparr>],
                       advert_id_seq := 1\<rparr>"
  by code_simp

theorem delete_then_fetch_advert_witness:
  "decimal ''1'' \<in> set (map a_id (adverts db_bike))
   \<and> route DELETE ''/advert/1'' = Inr (H_AdvertView_delete, [''advert_id'' \<mapsto> ''1''])
   \<and> fst (AdvertView_delete db_bike [''advert_id'' \<mapsto> ''1''])
       = Inr \<lparr>status = 200, payload = JObj [(''Deleted ID'', JInt 1)]\<rparr>
   \<and> adverts (snd (AdvertView_delete db_bike [''advert_id'' \<mapsto> ''1''])) = []
   \<and> route GET ''/advert/1'' = Inr (H_AdvertView_get, [''advert_id'' \<mapsto> ''1''])
   \<and> AdvertView_get (snd (AdvertView_delete db_bike [''advert_id'' \<mapsto> ''1'']))
         [''advert_id'' \<mapsto> ''1''] = Inl HTTPNotFound
   \<and> http_status HTTPNotFound = Some 404"
proof -
  have d: "decimal ''1'' = 1" by code_simp
  have m: "decimal ''1'' \<in> set (map a_id (adverts db_bike))"
    by (simp add: d db_bike_eq)
  have ds: "''1'' \<noteq> []" "list_all is_digit ''1''"
    using digits_1 by blast+
  note t = delete_then_fetch_advert [OF ds m]
  from t have del: "AdvertView_delete db_bike [''advert_id'' \<mapsto> ''1'']
      = (Inr \<lparr>status = 200, payload = JObj [(''Deleted ID'', JInt (int (decimal ''1'')))]\<rparr>,
         db_bike\<lparr>adverts := filter (\<lambda>r. a_id r \<noteq> decimal ''1'') (adverts db_bike)\<rparr>)"
    by blast
  have "fst (AdvertView_delete db_bike [''advert_id'' \<mapsto> ''1''])
      = Inr \<lparr>status = 200, payload = JObj [(''Deleted ID'', JInt 1)]\<rparr>"
    by (simp add: del d)
  moreover have "adverts (snd (AdvertView_delete db_bike [''advert_id'' \<mapsto> ''1''])) = []"
    unfolding del by (simp add: d db_bike_eq)
  moreover from t have "route DELETE (''/advert/'' @ ''1'')
      = Inr (H_AdvertView_delete, [''advert_id'' \<mapsto> ''1''])"
    and "route GET (''/advert/'' @ ''1'') = Inr (H_AdvertView_get, [''advert_id'' \<mapsto> ''1''])"
    and "AdvertView_get (snd (AdvertView_delete db_bike [''advert_id'' \<mapsto> ''1'']))
         [''advert_id'' \<mapsto> ''1''] = Inl HTTPNotFound"
    by blast+
  ultimately show ?thesis using m by simp
qed

subsection \<open>POST /advert\<close>

lemma AdvertView_post_Json:
  "AdvertView_post d s (Json kw) =
     (if Suc (advert_id_seq s) \<in> set (map a_id (adverts s))
      then (Inl HTTPBadRequest, s\<lparr>advert_id_seq := Suc (advert_id_seq s)\<rparr>)
      else if (case k_user_id kw of None \<Rightarrow> False
               | Some uid \<Rightarrow> uid \<notin> set (map (\<lambda>r. int (u_id r)) (users s)))
      then (Inl ForeignKeyViolationError, s\<lparr>advert_id_seq := Suc (advert_id_seq s)\<rparr>)
      else (Inr (json_response (Advert_to_dict
                   \<lparr>a_id = Suc (advert_id_seq s), a_title = k_title kw, a_text = k_text kw,
                      a_timestamp = Some d, a_user_id = k_user_id kw\<rparr>)),
            s\<lparr>advert_id_seq := Suc (advert_id_seq s),
              adverts := adverts s @ [\<lparr>a_id = Suc (advert_id_seq s), a_title = k_title kw,
                                         a_text = k_text kw, a_timestamp = Some d,
                                         a_user_id = k_user_id kw\<rparr>]\<rparr>))"
  by (simp add: AdvertView_post_def create_instance_def Advert_create_def Let_def)

lemma AdvertView_post_NotJson: "AdvertView_post d s NotJson = (Inl JSONDecodeError, s)"
  by (simp add: AdvertView_post_def)


lemma AdvertView_post_failure:
  "AdvertView_post d s b = (Inl e, s') \<Longrightarrow> adverts s' = adverts s"
  by (cases b) (auto simp: AdvertView_post_Json AdvertView_post_NotJson split: if_splits)

lemma AdvertView_post_success:
  assumes "AdvertView_post d s b = (Inr resp, s')"
  shows "\<exists>row. adverts s' = adverts s @ [row] \<and> resp = json_response (Advert_to_dict row)
           \<and> a_timestamp row = Some d"
proof (cases b)
  case NotJson
  with assms show ?thesis by (simp add: AdvertView_post_NotJson)
next
  case (Json kw)
  with assms show ?thesis by (auto simp: AdvertView_post_Json split: if_splits)
qed

subsection \<open>C5: which errors the handlers turn into a status\<close>




subsection \<open>C8: the two listings\<close>

lemma dict_values_Advert_to_dict: "dict_values (Advert_to_dict row) = advert_tuple row"
  by (simp add: Advert_to_dict_def advert_tuple_def)

lemma create_adverts_rows:
  "create_adverts d s bs = (created, s') \<Longrightarrow>
     map advert_tuple (adverts s')
       = map advert_tuple (adverts s) @ map (\<lambda>resp. dict_values (payload resp)) created"
proof (induction bs arbitrary: s created)
  case Nil
  then show ?case by simp
next
  case (Cons b bs)
  obtain r s1 where post: "AdvertView_post d s b = (r, s1)"
    by (cases "AdvertView_post d s b") auto
  show ?case
  proof (cases r)
    case (Inl e)
    with post Cons.prems have rest: "create_adverts d s1 bs = (created, s')" by simp
    from post Inl have "adverts s1 = adverts s" by (simp add: AdvertView_post_failure)
    with Cons.IH [OF rest] show ?thesis by simp
  next
    case (Inr resp)
    obtain cs s2 where rest: "create_adverts d s1 bs = (cs, s2)"
      by (cases "create_adverts d s1 bs") auto
    with post Inr Cons.prems have c: "created = resp # cs" and s2: "s2 = s'" by auto
    from rest s2 have rest': "create_adverts d s1 bs = (cs, s')" by simp
    from post Inr AdvertView_post_success obtain row where
      "adverts s1 = adverts s @ [row]" and "resp = json_response (Advert_to_dict row)"
      by blast
    with Cons.IH [OF rest'] c show ?thesis
      by (simp add: json_response_def dict_values_Advert_to_dict)
  qed
qed

text \<open>
  Claim C8. In every state, GET /users answers with one array per stored user row,
  holding id, username, email in this order, and GET /adverts with one array per stored
  advert row, holding id, title, text, owner, timestamp in this order; no array carries
  field names. When a client creates adverts in a store that has none, the listing has
  one entry for each advert that was created, and the entry of an advert is the values
  of the record in its create response, in the order of that record's keys.
\<close>

theorem listings_are_positional_rows:
  "payload (Users_get s)
     = JArr (map (\<lambda>r. JArr [JInt (int (u_id r)), json_str (u_username r), json_str (u_email r)])
                 (users s))
   \<and> payload (Adverts_get s)
     = JArr (map (\<lambda>r. JArr [JInt (int (a_id r)), json_str (a_title r), json_str (a_text r),
                              json_int (a_user_id r), json_str (a_timestamp r)])
                 (adverts s))
   \<and> (adverts s = [] \<longrightarrow>
        payload (Adverts_get (snd (create_adverts d s bs)))
          = JArr (map (\<lambda>resp. dict_values (payload resp)) (fst (create_adverts d s bs)))
        \<and> length (adverts (snd (create_adverts d s bs))) = length (fst (create_adverts d s bs)))"
proof -
  obtain created s' where c: "create_adverts d s bs = (created, s')"
    by (cases "create_adverts d s bs") auto
  have rows: "map advert_tuple (adverts s')
      = map advert_tuple (adverts s) @ map (\<lambda>resp. dict_values (payload resp)) created"
    using c by (rule create_adverts_rows)
  have "adverts s = [] \<longrightarrow>
      payload (Adverts_get s') = JArr (map (\<lambda>resp. dict_values (payload resp)) created)
      \<and> length (adverts s') = length created"
  proof
    assume e: "adverts s = []"
    with rows have m: "map advert_tuple (adverts s')
        = map (\<lambda>resp. dict_values (payload resp)) created"
      by simp
    then have "length (adverts s') = length created"
      by (rule map_eq_imp_length_eq)
    with m show "payload (Adverts_get s')
          = JArr (map (\<lambda>resp. dict_values (payload resp)) created)
        \<and> length (adverts s') = length created"
      by (simp add: Adverts_get_def json_response_def)
  qed
  moreover have "payload (Users_get s)
     = JArr (map (\<lambda>r. JArr [JInt (int (u_id r)), json_str (u_username r), json_str (u_email r)])
                 (users s))"
    by (simp add: Users_get_def json_response_def user_tuple_def [abs_def])
  moreover have "payload (Adverts_get s)
     = JArr (map (\<lambda>r. JArr [JInt (int (a_id r)), json_str (a_title r), json_str (a_text r),
                              json_int (a_user_id r), json_str (a_timestamp r)])
                 (adverts s))"
    by (simp add: Adverts_get_def json_response_def advert_tuple_def [abs_def])
  ultimately show ?thesis using c by simp
qed

theorem listings_are_positional_rows_witness:
  "payload (Users_get db_alice) = JArr [JArr [JInt 1, JStr ''alice'', JStr ''a@x.com'']]
   \<and> adverts db_alice = []
   \<and> fst (create_adverts (Advert_timestamp_default new_year) db_alice
             [Json bike, NotJson, Json (bike\<lparr>k_title := Some ''Boat'', k_user_id := None\<rparr>)])
       = [json_response (JObj [(''id'', JInt 1), (''title'', JStr ''Bike''),
                               (''text'', JStr ''For sale''), (''owner'', JInt 1),
                               (''timestamp'', JStr ''2024-01-01T00:00:00'')]),
          json_response (JObj [(''id'', JInt 2), (''title'', JStr ''Boat''),
                               (''text'', JStr ''For sale''), (''owner'', JNull),
                               (''timestamp'', JStr ''2024-01-01T00:00:00'')])]
   \<and> payload (Adverts_get (snd (create_adverts (Advert_timestamp_default new_year) db_alice
             [Json bike, NotJson, Json (bike\<lparr>k_title := Some ''Boat'', k_user_id := None\<rparr>)])))
       = JArr [JArr [JInt 1, JStr ''Bike'', JStr ''For sale'', JInt 1, JStr ''2024-01-01T00:00:00''],
               JArr [JInt 2, JStr ''Boat'', JStr ''For sale'', JNull, JStr ''2024-01-01T00:00:00'']]"
proof -
  let ?bs = "[Json bike, NotJson, Json (bike\<lparr>k_title := Some ''Boat'', k_user_id := None\<rparr>)]"
  let ?d = "Advert_timestamp_default new_year"
  have e: "adverts db_alice = []" by (simp add: db_alice_eq)
  have c: "fst (create_adverts ?d db_alice ?bs)
       = [json_response (JObj [(''id'', JInt 1), (''title'', JStr ''Bike''),
                               (''text'', JStr ''For sale''), (''owner'', JInt 1),
                               (''timestamp'', JStr ''2024-01-01T00:00:00'')]),
          json_response (JObj [(''id'', JInt 2), (''title'', JStr ''Boat''),
                               (''text'', JStr ''For sale''), (''owner'', JNull),
                               (''timestamp'', JStr ''2024-01-01T00:00:00'')])]"
    by code_simp
  note t = listings_are_positional_rows [of db_alice ?d ?bs]
  from t have "payload (Users_get db_alice) = JArr [JArr [JInt 1, JStr ''alice'', JStr ''a@x.com'']]"
    by (simp add: db_alice_users)
  moreover from t e have "payload (Adverts_get (snd (create_adverts ?d db_alice ?bs)))
      = JArr (map (\<lambda>resp. dict_values (payload resp)) (fst (create_adverts ?d db_alice ?bs)))"
    by blast
  then have "payload (Adverts_get (snd (create_adverts ?d db_alice ?bs)))
       = JArr [JArr [JInt 1, JStr ''Bike'', JStr ''For sale'', JInt 1, JStr ''2024-01-01T00:00:00''],
               JArr [JInt 2, JStr ''Boat'', JStr ''For sale'', JNull, JStr ''2024-01-01T00:00:00'']]"
    unfolding c by (simp add: json_response_def)
  ultimately show ?thesis using e c by blast
qed

subsection \<open>C1: the default of the advert timestamp\<close>

lemma advert_timestamp_is_import_time:
  assumes "AdvertView_post (Advert_timestamp_default imported_at) s b = (Inr resp, s')"
  shows "\<exists>row. adverts s' = adverts s @ [row] \<and> a_timestamp row = Some (isoformat imported_at)"
  using AdvertView_post_success [OF assms] by (auto simp: Advert_timestamp_default_def)

text \<open>
  Claim C1 says that the timestamp of an advert defaults to the moment of its creation.
  In the module the default is the string computed once on line 75, when the module is
  imported. With an import at 2024-01-01 00:00:00, two adverts created afterwards, say
  on 2024-06-21, both carry \<open>2024-01-01T00:00:00\<close>: they do not differ from one another,
  and they are not the string that the specification's default gives for the creation
  moment.
\<close>

theorem advert_timestamp_frozen_at_import:
  "Advert_timestamp_default new_year = ''2024-01-01T00:00:00''
   \<and> map a_timestamp (adverts (snd (create_adverts (Advert_timestamp_default new_year) db_alice
                                        [Json bike, Json bike])))
       = [Some ''2024-01-01T00:00:00'', Some ''2024-01-01T00:00:00'']
   \<and> spec_timestamp_default midsummer = ''2024-06-21T12:30:05.000250''
   \<and> Advert_timestamp_default new_year \<noteq> spec_timestamp_default midsummer"
proof -
  have a: "Advert_timestamp_default new_year = ''2024-01-01T00:00:00''" by code_simp
  have b: "spec_timestamp_default midsummer = ''2024-06-21T12:30:05.000250''" by code_simp
  have c: "map a_timestamp (adverts (snd (create_adverts (Advert_timestamp_default new_year) db_alice
                                        [Json bike, Json bike])))
       = [Some ''2024-01-01T00:00:00'', Some ''2024-01-01T00:00:00'']"
    by code_simp
  show ?thesis unfolding a b using c [unfolded a] by simp
qed

subsection \<open>C6: an id that no created record was given\<close>










end
